theory Spec2Isabelle
  imports Main "HOL-Library.Sublist"
begin

section \<open>Data model of package easyhttpserver\<close>

text \<open>
  Go's \<open>int\<close> and \<open>time.Duration\<close> are modelled as \<open>int\<close>: the package never does
  arithmetic on a port or on a duration (it only compares them with constants and
  copies them), so no operation can wrap. Go strings are byte strings, as \<open>string\<close> is.
\<close>

subsection \<open>Errors and panics\<close>

text \<open>
  Errors of the Go standard library that the package compares against or passes on:
  \<open>http.ErrServerClosed\<close>, \<open>context.DeadlineExceeded\<close>, and any other error value.
\<close>

datatype go_error = ErrServerClosed | DeadlineExceeded | OtherError string

text \<open>
  One constructor for each \<open>fmt.Errorf\<close> of \<open>Verify\<close> and \<open>Start\<close>, in source order,
  carrying the values the message is formatted with:
  \<^item> \<open>MissingDevPort\<close>: "missing PORT for local development"
  \<^item> \<open>LocalhostNotSupported\<close>: "Let's Encrypt is not supported on localhost"
  \<^item> \<open>MissingHost\<close>: "missing HOST when LETSENCRYPT_ENABLED is true"
  \<^item> \<open>MissingEmail\<close>: "missing LETSENCRYPT_EMAIL when LETSENCRYPT_ENABLED is true"
  \<^item> \<open>MissingCacheDir\<close>: "missing LETSENCRYPT_CACHE_DIR when LETSENCRYPT_ENABLED is true"
  \<^item> \<open>PortNot80 p\<close>: "Let's Encrypt requires HTTP port to be 80, got port p instead"
  \<^item> \<open>ACMEv2NotSupported version url\<close>: "ACMEv2 is not supported by this Go build ..."
  \<^item> \<open>CacheDirInaccessible dir err\<close>: "cannot access Let's Encrypt cache dir ..."
  \<^item> \<open>CacheDirNotDirectory dir\<close>: "Let's Encrypt cache dir ... is not a directory"
\<close>

datatype error =
    MissingDevPort
  | LocalhostNotSupported
  | MissingHost
  | MissingEmail
  | MissingCacheDir
  | PortNot80 int
  | ACMEv2NotSupported string string
  | CacheDirInaccessible string string
  | CacheDirNotDirectory string

text \<open>A panic carries a string (\<open>panic("...")\<close>), an error value (\<open>panic(err)\<close>), or is
  the runtime's nil pointer dereference.\<close>

datatype panic_value = PanicString string | PanicError go_error | NilDereference

text \<open>What a call does: it returns a value, returns a non-nil \<open>error\<close>, or panics.\<close>

datatype 'a outcome = Value 'a | Error error | Panic panic_value

subsection \<open>Observable effects\<close>

text \<open>
  The two listeners a server can own, and the effects that the shutdown path has on the
  outside world, recorded in the order they happen.
\<close>

datatype listener = HTTPListener | HTTPSListener

datatype event = Logged string | ShutdownCalled listener | CloseCalled listener

type_synonym trace = "event list"

text \<open>A \<open>log.Printf\<close>-style function: here it receives the message already formatted.\<close>

type_synonym logfn = "string \<Rightarrow> trace \<Rightarrow> trace"

subsection \<open>Options\<close>

record Options =
  Log :: "logfn option"
  DefaultDevPort :: int
  GracefulShutdownTimeout :: int
  Port :: int
  Host :: string
  LetsEncrypt :: bool
  LetsEncryptCacheDir :: string
  LetsEncryptEmail :: string
  IsLocalDevelopmentHost :: bool
  PrimaryScheme :: string

section \<open>Formatting\<close>

text \<open>\<open>strconv.Itoa\<close> and the \<open>%d\<close> verb: decimal digits, with a leading minus sign for
  a negative number.\<close>

definition digitChar :: "nat \<Rightarrow> char" where
  "digitChar d = ''0123456789'' ! d"

function formatNat :: "nat \<Rightarrow> string" where
  "formatNat n = (if n < 10 then [digitChar n] else formatNat (n div 10) @ [digitChar (n mod 10)])"
  by pat_completeness auto
termination
  by (relation "measure id") auto

declare formatNat.simps [simp del]

definition Itoa :: "int \<Rightarrow> string" where
  "Itoa i = (if i < 0 then CHR ''-'' # formatNat (nat (- i)) else formatNat (nat i))"

section \<open>Options.Verify and Options.BaseURL\<close>

text \<open>
  \<open>Verify\<close> has a pointer receiver and mutates the options in place, also on the paths
  that return an error; the model returns the error (\<open>None\<close> for \<open>nil\<close>) together with
  the options as the call leaves them. The names \<open>sopt1\<close> to \<open>sopt4\<close> are the options
  after each of the assignments, in source order; the five checks inside
  \<open>if sopt.LetsEncrypt { ... }\<close> are written as one chain, each under that condition.
\<close>

definition Verify :: "Options \<Rightarrow> error option \<times> Options" where
  "Verify sopt0 =
    (let sopt1 =
       (if Host sopt0 = '''' \<or> Host sopt0 = ''localhost'' \<or> prefix ''localhost:'' (Host sopt0)
        then sopt0\<lparr>IsLocalDevelopmentHost := True\<rparr> else sopt0)
     in
     if Port sopt1 = 0 \<and> IsLocalDevelopmentHost sopt1 \<and> DefaultDevPort sopt1 = 0
     then (Some MissingDevPort, sopt1)
     else
     let sopt2 =
       (if Port sopt1 = 0
        then (if IsLocalDevelopmentHost sopt1
              then sopt1\<lparr>Port := DefaultDevPort sopt1\<rparr>
              else sopt1\<lparr>Port := 80\<rparr>)
        else sopt1)
     in
     if LetsEncrypt sopt2 \<and> IsLocalDevelopmentHost sopt2 then (Some LocalhostNotSupported, sopt2)
     else if LetsEncrypt sopt2 \<and> Host sopt2 = '''' then (Some MissingHost, sopt2)
     else if LetsEncrypt sopt2 \<and> LetsEncryptEmail sopt2 = '''' then (Some MissingEmail, sopt2)
     else if LetsEncrypt sopt2 \<and> LetsEncryptCacheDir sopt2 = '''' then (Some MissingCacheDir, sopt2)
     else if LetsEncrypt sopt2 \<and> Port sopt2 \<noteq> 80 then (Some (PortNot80 (Port sopt2)), sopt2)
     else
     let sopt3 =
       (if IsLocalDevelopmentHost sopt2
        then sopt2\<lparr>PrimaryScheme := ''http''\<rparr>
        else sopt2\<lparr>PrimaryScheme := ''https''\<rparr>);
         sopt4 =
       (if Host sopt3 = '''' \<or> Host sopt3 = ''localhost''
        then sopt3\<lparr>Host := ''localhost:'' @ Itoa (Port sopt3)\<rparr>
        else sopt3)
     in (None, sopt4))"

text \<open>\<open>BaseURL\<close> on \<open>Options\<close> (a value receiver): two assertions, then
  \<open>fmt.Sprintf("%s://%s", ...)\<close>.\<close>

definition Options_BaseURL :: "Options \<Rightarrow> string outcome" where
  "Options_BaseURL sopt =
    (if PrimaryScheme sopt = '''' then Panic (PanicString ''BaseURL before Verify'')
     else if Host sopt = '''' then Panic (PanicString ''missing HOST'')
     else Value (PrimaryScheme sopt @ ''://'' @ Host sopt))"

section \<open>The server handle\<close>

text \<open>
  What \<open>Start\<close> hands to the \<open>autocert\<close> package: \<open>autocert.AcceptTOS\<close>,
  \<open>autocert.DirCache(dir)\<close>, \<open>autocert.HostWhitelist(hosts)\<close> and the contact email.
\<close>

datatype prompt = AcceptTOS

record autocert_Manager =
  Prompt :: prompt
  Cache :: string
  HostPolicy :: "string list"
  Email :: string

text \<open>A handler is the caller's, or the manager's HTTP-01 challenge responder
  (\<open>mgr.HTTPHandler(nil)\<close>).\<close>

datatype 'h handler = CallerHandler 'h | ChallengeHandler autocert_Manager

text \<open>\<open>http.Server\<close>, with the fields \<open>Start\<close> sets; \<open>TLSConfig\<close> is the manager's
  (\<open>mgr.TLSConfig()\<close>) or \<open>nil\<close>.\<close>

record 'h http_Server =
  Addr :: string
  Handler :: "'h handler"
  TLSConfig :: "autocert_Manager option"

text \<open>A buffered channel of errors, as \<open>make(chan error, n)\<close> creates it.\<close>

datatype chan = MakeChan (cap: nat)

record 'h Server =
  httpServer :: "'h http_Server option"
  httpsServer :: "'h http_Server option"
  errc :: chan
  gracefulShutdownTimeout :: int
  log :: "logfn option"
  baseURL :: string
  endpoints :: "string list"

text \<open>
  What \<open>Start\<close> reads from outside the package: the constant \<open>acme.LetsEncryptURL\<close> of
  the linked library, \<open>runtime.Version()\<close>, and \<open>os.Stat\<close> (an error, or a file info
  with its \<open>IsDir\<close>).
\<close>

datatype stat_result = StatError string | FileInfo bool

record environment =
  LetsEncryptURL :: string
  runtimeVersion :: string
  Stat :: "string \<Rightarrow> stat_result"

definition Second :: int where
  "Second = 1000000000"

section \<open>Start\<close>

text \<open>
  The block \<open>if sopt.LetsEncrypt { ... }\<close> of \<open>Start\<close>: it checks the cache directory,
  builds the manager and the HTTPS server, replaces the plain listener's handler by the
  challenge responder and starts the HTTPS goroutine. The result is the server, the
  handler for the plain listener and the goroutines started so far.
\<close>

definition startHTTPS ::
  "environment \<Rightarrow> 'h \<Rightarrow> Options \<Rightarrow> 'h Server \<Rightarrow> ('h Server \<times> 'h handler \<times> listener list) outcome" where
  "startHTTPS env h sopt srv =
    (if LetsEncrypt sopt then
       (case Stat env (LetsEncryptCacheDir sopt) of
          StatError err \<Rightarrow> Error (CacheDirInaccessible (LetsEncryptCacheDir sopt) err)
        | FileInfo isDir \<Rightarrow>
            if \<not> isDir then Error (CacheDirNotDirectory (LetsEncryptCacheDir sopt))
            else
              let mgr = \<lparr>Prompt = AcceptTOS, Cache = LetsEncryptCacheDir sopt,
                         HostPolicy = [Host sopt], Email = LetsEncryptEmail sopt\<rparr>
              in Value (srv\<lparr>httpsServer := Some \<lparr>Addr = '':https'', Handler = CallerHandler h,
                                                     TLSConfig = Some mgr\<rparr>\<rparr>,
                        ChallengeHandler mgr, [HTTPSListener]))
     else Value (srv, CallerHandler h, []))"

text \<open>
  \<open>Start\<close> returns the server and the goroutines it has started, in the order of the
  \<open>go\<close> statements; each goroutine runs one listener and sends one value on
  \<open>errc\<close> when the listener returns.
\<close>

definition Start :: "environment \<Rightarrow> 'h \<Rightarrow> Options \<Rightarrow> ('h Server \<times> listener list) outcome" where
  "Start env h sopt0 =
    (case (if PrimaryScheme sopt0 = '''' then Verify sopt0 else (None, sopt0)) of
       (Some err, _) \<Rightarrow> Error err
     | (None, sopt1) \<Rightarrow>
       (let sopt =
         (if GracefulShutdownTimeout sopt1 = 0
          then sopt1\<lparr>GracefulShutdownTimeout := 10 * Second\<rparr> else sopt1)
        in
        (case Options_BaseURL sopt of
          Panic p \<Rightarrow> Panic p
        | Error e \<Rightarrow> Error e
        | Value url \<Rightarrow>
          (let srv = \<lparr>httpServer = None, httpsServer = None, errc = MakeChan 2,
                     gracefulShutdownTimeout = GracefulShutdownTimeout sopt,
                     log = None, baseURL = url, endpoints = []\<rparr>
           in
           if LetsEncryptURL env \<noteq> ''https://acme-v02.api.letsencrypt.org/directory''
           then Error (ACMEv2NotSupported (runtimeVersion env) (LetsEncryptURL env))
           else
           (case startHTTPS env h sopt srv of
             Panic p \<Rightarrow> Panic p
           | Error e \<Rightarrow> Error e
           | Value (srv1, httpHandler, started1) \<Rightarrow>
             (let srv2 = srv1\<lparr>httpServer := Some \<lparr>Addr = '':'' @ Itoa (Port sopt),
                                                   Handler = httpHandler, TLSConfig = None\<rparr>\<rparr>;
                  started2 = started1 @ [HTTPListener]
              in
              (case Options_BaseURL sopt of
                Panic p \<Rightarrow> Panic p
              | Error e \<Rightarrow> Error e
              | Value url2 \<Rightarrow>
                (let srv3 = srv2\<lparr>endpoints := endpoints srv2 @ [url2]\<rparr>;
                     srv4 =
                       (if \<not> IsLocalDevelopmentHost sopt \<and> Port sopt \<noteq> 80
                        then srv3\<lparr>endpoints :=
                               endpoints srv3 @ [''127.0.0.1:'' @ Itoa (Port sopt)]\<rparr>
                        else srv3)
                 in Value (srv4, started2)))))))))"

text \<open>The body of each goroutine, after its listener has returned \<open>err\<close>: the value it
  sends on \<open>errc\<close>.\<close>

definition listenerReport :: "go_error \<Rightarrow> go_error option" where
  "listenerReport err = (if err = ErrServerClosed then None else Some err)"

section \<open>Endpoints, BaseURL, Wait\<close>

definition Endpoints :: "'h Server \<Rightarrow> string list" where
  "Endpoints srv = endpoints srv"

definition Server_BaseURL :: "'h Server \<Rightarrow> string" where
  "Server_BaseURL srv = baseURL srv"

text \<open>
  A receive \<open><-srv.errc\<close>. The channel is given by the values that are sent on it, in
  the order they are delivered; a receive takes the first one, and blocks for ever
  (\<open>None\<close>) when no value is left to come.
\<close>

definition recv :: "'a list \<Rightarrow> ('a \<times> 'a list) option" where
  "recv ch = (case ch of [] \<Rightarrow> None | e # rest \<Rightarrow> Some (e, rest))"

text \<open>\<open>Wait\<close> returns its error and the values still to be received, or \<open>None\<close> when
  one of its receives blocks for ever.\<close>

definition Wait ::
  "'h Server \<Rightarrow> go_error option list \<Rightarrow> (go_error option \<times> go_error option list) option" where
  "Wait srv ch0 =
    (let err0 = None in
     case (if httpServer srv \<noteq> None
           then (case recv ch0 of
                   None \<Rightarrow> None
                 | Some (e, ch) \<Rightarrow> Some (if err0 = None then e else err0, ch))
           else Some (err0, ch0)) of
       None \<Rightarrow> None
     | Some (err1, ch1) \<Rightarrow>
         (if httpsServer srv \<noteq> None
          then (case recv ch1 of
                  None \<Rightarrow> None
                | Some (e, ch) \<Rightarrow> Some (if err1 = None then e else err1, ch))
          else Some (err1, ch1)))"

section \<open>Shutdown\<close>

text \<open>\<open>context.WithTimeout(context.Background(), gracePeriod)\<close>.\<close>

datatype ctx = WithTimeout int

text \<open>
  \<open>gracefulShutdown\<close>: \<open>forceful\<close> is deferred first, so it runs last on every way out
  of the function, a panic included. (The deferred \<open>cancel\<close> only releases the timer of
  the context.) The result is how the call ends and the effects it has had.
\<close>

definition gracefulShutdown ::
  "logfn \<Rightarrow> int \<Rightarrow> (ctx \<Rightarrow> trace \<Rightarrow> go_error option \<times> trace) \<Rightarrow> (trace \<Rightarrow> trace) \<Rightarrow> trace
   \<Rightarrow> unit outcome \<times> trace" where
  "gracefulShutdown lg gracePeriod graceful forceful t0 =
    (let c = WithTimeout gracePeriod;
         (err, t1) = graceful c t0
     in
     if err = Some DeadlineExceeded
     then (Value (), forceful (lg ''graceful shutdown timed out, will close connections forcibly'' t1))
     else (case err of
             Some e \<Rightarrow> (Panic (PanicError e), forceful t1)
           | None \<Rightarrow> (Value (), forceful t1)))"

text \<open>\<open>Log\<close> on \<open>Server\<close>: nothing when the \<open>log\<close> field is nil.\<close>

definition Server_Log :: "'h Server \<Rightarrow> logfn" where
  "Server_Log srv msg t = (case log srv of None \<Rightarrow> t | Some f \<Rightarrow> f msg t)"

text \<open>
  \<open>Shutdown\<close> on \<open>Server\<close>. \<open>shutdownResult\<close> is what \<open>http.Server.Shutdown\<close> returns
  for each listener under the given context; the calls to \<open>Shutdown\<close> and \<open>Close\<close> of
  \<open>net/http\<close> are recorded in the trace. With a nil \<open>httpServer\<close> the first call
  dereferences a nil pointer.
\<close>

definition Server_Shutdown ::
  "(listener \<Rightarrow> ctx \<Rightarrow> go_error option) \<Rightarrow> 'h Server \<Rightarrow> trace \<Rightarrow> unit outcome \<times> trace" where
  "Server_Shutdown shutdownResult srv t0 =
    (case httpServer srv of
       None \<Rightarrow> (Panic NilDereference, t0)
     | Some _ \<Rightarrow>
         gracefulShutdown (Server_Log srv) (gracefulShutdownTimeout srv)
           (\<lambda>c t.
              let err = shutdownResult HTTPListener c;
                  t1 = t @ [ShutdownCalled HTTPListener]
              in if httpsServer srv \<noteq> None
                 then (let err2 = shutdownResult HTTPSListener c;
                           t2 = t1 @ [ShutdownCalled HTTPSListener]
                       in (if err = None then err2 else err, t2))
                 else (err, t1))
           (\<lambda>t.
              let t1 = t @ [CloseCalled HTTPListener]
              in if httpsServer srv \<noteq> None then t1 @ [CloseCalled HTTPSListener] else t1)
           t0)"

section \<open>Values used in the examples\<close>

text \<open>The zero value of \<open>Options\<close>, which a Go composite literal starts from:
  \<open>Options{Host: "example.com"}\<close> is \<open>zeroOptions\<lparr>Host := ''example.com''\<rparr>\<close>.\<close>

definition zeroOptions :: Options where
  "zeroOptions = \<lparr>Log = None, DefaultDevPort = 0, GracefulShutdownTimeout = 0, Port = 0,
     Host = '''', LetsEncrypt = False, LetsEncryptCacheDir = '''', LetsEncryptEmail = '''',
     IsLocalDevelopmentHost = False, PrimaryScheme = ''''\<rparr>"

text \<open>An environment with the ACME v2 directory of the library and one directory,
  \<open>/tmp/cache\<close>, on disk.\<close>

definition exampleEnv :: environment where
  "exampleEnv = \<lparr>LetsEncryptURL = ''https://acme-v02.api.letsencrypt.org/directory'',
     runtimeVersion = ''go1.21'',
     Stat = (\<lambda>p. if p = ''/tmp/cache'' then FileInfo True
                else StatError ''no such file or directory'')\<rparr>"

text \<open>A logger that appends the message to the trace.\<close>

definition traceLog :: logfn where
  "traceLog msg t = t @ [Logged msg]"

section \<open>What the specification says Wait returns\<close>

text \<open>In the specification's words: the first non-nil error among the completions
  received, or nil if all of them are nil.\<close>

fun firstNonNil :: "go_error option list \<Rightarrow> go_error option" where
  "firstNonNil [] = None"
| "firstNonNil (None # es) = firstNonNil es"
| "firstNonNil (Some e # es) = Some e"

section \<open>Facts about formatting and Verify\<close>

lemma Itoa_3001: "Itoa 3001 = ''3001''"
  by (simp add: Itoa_def formatNat.simps digitChar_def)

lemma Itoa_3099: "Itoa 3099 = ''3099''"
  by (simp add: Itoa_def formatNat.simps digitChar_def)

lemma Itoa_8080: "Itoa 8080 = ''8080''"
  by (simp add: Itoa_def formatNat.simps digitChar_def)

lemma Itoa_80: "Itoa 80 = ''80''"
  by (simp add: Itoa_def formatNat.simps digitChar_def)

text \<open>\<open>Verify\<close> writes to \<open>IsLocalDevelopmentHost\<close>, \<open>Port\<close>, \<open>PrimaryScheme\<close> and
  \<open>Host\<close> only.\<close>

lemma Verify_keeps_timeout:
  "GracefulShutdownTimeout (snd (Verify sopt)) = GracefulShutdownTimeout sopt"
  by (simp add: Verify_def Let_def)

lemma Verify_keeps_LetsEncrypt: "LetsEncrypt (snd (Verify sopt)) = LetsEncrypt sopt"
  by (simp add: Verify_def Let_def)

lemma Verify_keeps_nonzero_port: "Port sopt \<noteq> 0 \<Longrightarrow> Port (snd (Verify sopt)) = Port sopt"
  by (simp add: Verify_def Let_def)

lemma Verify_nonlocal:
  assumes "\<not> IsLocalDevelopmentHost sopt" "Host sopt \<noteq> ''''" "Host sopt \<noteq> ''localhost''"
    "\<not> prefix ''localhost:'' (Host sopt)"
  shows "IsLocalDevelopmentHost (snd (Verify sopt)) = False"
  using assms by (simp add: Verify_def Let_def)

section \<open>Facts about Start\<close>

text \<open>What every server that \<open>Start\<close> returns looks like, and which goroutines run.\<close>

lemma Start_ValueD:
  assumes "Start env h sopt = Value (srv, started)"
  shows "errc srv = MakeChan 2
    \<and> httpServer srv \<noteq> None
    \<and> (httpsServer srv \<noteq> None) = LetsEncrypt sopt
    \<and> started = (if LetsEncrypt sopt then [HTTPSListener, HTTPListener] else [HTTPListener])
    \<and> gracefulShutdownTimeout srv =
        (if GracefulShutdownTimeout sopt = 0 then 10 * Second else GracefulShutdownTimeout sopt)
    \<and> log srv = None"
proof -
  obtain err sopt1
    where v: "(if PrimaryScheme sopt = '''' then Verify sopt else (None, sopt)) = (err, sopt1)"
    by (cases "(if PrimaryScheme sopt = '''' then Verify sopt else (None, sopt))") auto
  have le: "LetsEncrypt sopt1 = LetsEncrypt sopt"
    and tm: "GracefulShutdownTimeout sopt1 = GracefulShutdownTimeout sopt"
    using v Verify_keeps_LetsEncrypt [of sopt] Verify_keeps_timeout [of sopt]
    by (auto split: if_splits)
  show ?thesis
    using assms v le tm
    by (auto simp add: Start_def startHTTPS_def Let_def
        split: option.splits outcome.splits if_splits stat_result.splits prod.splits)
qed

text \<open>The endpoint list, in terms of the options \<open>Start\<close> works with after validation.\<close>

lemma Start_endpoints:
  assumes "Start env h sopt = Value (srv, started)"
  shows "endpoints srv =
    (if \<not> IsLocalDevelopmentHost (if PrimaryScheme sopt = '''' then snd (Verify sopt) else sopt)
        \<and> Port (if PrimaryScheme sopt = '''' then snd (Verify sopt) else sopt) \<noteq> 80
     then [baseURL srv, ''127.0.0.1:''
             @ Itoa (Port (if PrimaryScheme sopt = '''' then snd (Verify sopt) else sopt))]
     else [baseURL srv])"
proof -
  obtain err sopt1
    where v: "(if PrimaryScheme sopt = '''' then Verify sopt else (None, sopt)) = (err, sopt1)"
    by (cases "(if PrimaryScheme sopt = '''' then Verify sopt else (None, sopt))") auto
  have s: "(if PrimaryScheme sopt = '''' then snd (Verify sopt) else sopt) = sopt1"
    using v by (auto split: if_splits)
  show ?thesis
    unfolding s using assms v
    by (auto simp add: Start_def startHTTPS_def Let_def
        split: option.splits outcome.splits if_splits stat_result.splits prod.splits)
qed

text \<open>Runs of \<open>Start\<close>: the development server of the package's example test, the same
  with a logger and the default timeout, a plain server on port 8080 behind a proxy, and
  a Let's Encrypt server.\<close>

lemma Start_example_dev:
  "Start exampleEnv () (zeroOptions\<lparr>DefaultDevPort := 3099, GracefulShutdownTimeout := 2 * Second\<rparr>) =
     Value (\<lparr>httpServer = Some \<lparr>Addr = '':3099'', Handler = CallerHandler (), TLSConfig = None\<rparr>,
              httpsServer = None, errc = MakeChan 2, gracefulShutdownTimeout = 2000000000,
              log = None, baseURL = ''http://localhost:3099'',
              endpoints = [''http://localhost:3099'']\<rparr>, [HTTPListener])"
  by (simp add: Start_def startHTTPS_def Verify_def Options_BaseURL_def Let_def zeroOptions_def
      exampleEnv_def Itoa_3099 Second_def)

lemma Start_example_logged:
  "Start exampleEnv () (zeroOptions\<lparr>Log := Some traceLog, DefaultDevPort := 3099\<rparr>) =
     Value (\<lparr>httpServer = Some \<lparr>Addr = '':3099'', Handler = CallerHandler (), TLSConfig = None\<rparr>,
              httpsServer = None, errc = MakeChan 2, gracefulShutdownTimeout = 10000000000,
              log = None, baseURL = ''http://localhost:3099'',
              endpoints = [''http://localhost:3099'']\<rparr>, [HTTPListener])"
  by (simp add: Start_def startHTTPS_def Verify_def Options_BaseURL_def Let_def zeroOptions_def
      exampleEnv_def Itoa_3099 Second_def)

lemma Start_example_8080:
  "Start exampleEnv () (zeroOptions\<lparr>Host := ''example.com'', Port := 8080\<rparr>) =
     Value (\<lparr>httpServer = Some \<lparr>Addr = '':8080'', Handler = CallerHandler (), TLSConfig = None\<rparr>,
              httpsServer = None, errc = MakeChan 2, gracefulShutdownTimeout = 10000000000,
              log = None, baseURL = ''https://example.com'',
              endpoints = [''https://example.com'', ''127.0.0.1:8080'']\<rparr>, [HTTPListener])"
  by (simp add: Start_def startHTTPS_def Verify_def Options_BaseURL_def Let_def zeroOptions_def
      exampleEnv_def Itoa_8080 Second_def)

lemma Start_example_tls:
  "Start exampleEnv () (zeroOptions\<lparr>Host := ''myhost.example.com'', LetsEncrypt := True,
        LetsEncryptEmail := ''you@example.com'', LetsEncryptCacheDir := ''/tmp/cache''\<rparr>) =
     Value (\<lparr>httpServer = Some \<lparr>Addr = '':80'',
                Handler = ChallengeHandler \<lparr>Prompt = AcceptTOS, Cache = ''/tmp/cache'',
                   HostPolicy = [''myhost.example.com''], Email = ''you@example.com''\<rparr>,
                TLSConfig = None\<rparr>,
              httpsServer = Some \<lparr>Addr = '':https'', Handler = CallerHandler (),
                TLSConfig = Some \<lparr>Prompt = AcceptTOS, Cache = ''/tmp/cache'',
                   HostPolicy = [''myhost.example.com''], Email = ''you@example.com''\<rparr>\<rparr>,
              errc = MakeChan 2, gracefulShutdownTimeout = 10000000000,
              log = None, baseURL = ''https://myhost.example.com'',
              endpoints = [''https://myhost.example.com'']\<rparr>, [HTTPSListener, HTTPListener])"
  by (simp add: Start_def startHTTPS_def Verify_def Options_BaseURL_def Let_def zeroOptions_def
      exampleEnv_def Itoa_80 Second_def)

section \<open>Facts about Wait\<close>

lemma Wait_one:
  assumes "httpServer srv \<noteq> None" "httpsServer srv = None"
  shows "Wait srv ch = (if 1 \<le> length ch then Some (firstNonNil (take 1 ch), drop 1 ch) else None)"
proof (cases ch)
  case Nil
  then show ?thesis using assms by (simp add: Wait_def recv_def)
next
  case (Cons e rest)
  then show ?thesis using assms by (cases e) (simp_all add: Wait_def recv_def)
qed

lemma Wait_two:
  assumes "httpServer srv \<noteq> None" "httpsServer srv \<noteq> None"
  shows "Wait srv ch = (if 2 \<le> length ch then Some (firstNonNil (take 2 ch), drop 2 ch) else None)"
proof (cases ch)
  case Nil
  then show ?thesis using assms by (simp add: Wait_def recv_def)
next
  case c1: (Cons e1 rest)
  show ?thesis
  proof (cases rest)
    case Nil
    then show ?thesis using assms c1 by (simp add: Wait_def recv_def)
  next
    case (Cons e2 rest2)
    then show ?thesis using assms c1
      by (cases e1; cases e2) (simp_all add: Wait_def recv_def)
  qed
qed

section \<open>The completion channel and Wait\<close>

text \<open>
  C1 (amended). For every server that \<open>Start\<close> returns, the completion channel has
  capacity 2, whatever the TLS mode; the number of listener goroutines started is 1 when
  Let's Encrypt is disabled and 2 when it is enabled, so it never exceeds the capacity
  and equals it exactly in TLS mode.
\<close>

theorem errc_capacity_bounds_started:
  assumes "Start env h sopt = Value (srv, started)"
  shows "cap (errc srv) = 2
       \<and> length started = (if LetsEncrypt sopt then 2 else 1)
       \<and> length started \<le> cap (errc srv)"
  using Start_ValueD [OF assms] by simp

text \<open>The Let's Encrypt server: two goroutines, capacity 2.\<close>

theorem errc_capacity_bounds_started_witness:
  "Start exampleEnv () (zeroOptions\<lparr>Host := ''myhost.example.com'', LetsEncrypt := True,
        LetsEncryptEmail := ''you@example.com'', LetsEncryptCacheDir := ''/tmp/cache''\<rparr>) =
     Value (\<lparr>httpServer = Some \<lparr>Addr = '':80'',
                Handler = ChallengeHandler \<lparr>Prompt = AcceptTOS, Cache = ''/tmp/cache'',
                   HostPolicy = [''myhost.example.com''], Email = ''you@example.com''\<rparr>,
                TLSConfig = None\<rparr>,
              httpsServer = Some \<lparr>Addr = '':https'', Handler = CallerHandler (),
                TLSConfig = Some \<lparr>Prompt = AcceptTOS, Cache = ''/tmp/cache'',
                   HostPolicy = [''myhost.example.com''], Email = ''you@example.com''\<rparr>\<rparr>,
              errc = MakeChan 2, gracefulShutdownTimeout = 10000000000,
              log = None, baseURL = ''https://myhost.example.com'',
              endpoints = [''https://myhost.example.com'']\<rparr>, [HTTPSListener, HTTPListener])
   \<and> cap (MakeChan 2) = 2
   \<and> length [HTTPSListener, HTTPListener] = 2
   \<and> length [HTTPSListener, HTTPListener] \<le> cap (MakeChan 2)"
  using errc_capacity_bounds_started [OF Start_example_tls] Start_example_tls
  by simp

text \<open>The development server of the example test: TLS is disabled, one goroutine is
  started, and the channel still has capacity 2.\<close>

theorem errc_capacity_counterexample:
  "Start exampleEnv () (zeroOptions\<lparr>DefaultDevPort := 3099, GracefulShutdownTimeout := 2 * Second\<rparr>) =
     Value (\<lparr>httpServer = Some \<lparr>Addr = '':3099'', Handler = CallerHandler (), TLSConfig = None\<rparr>,
              httpsServer = None, errc = MakeChan 2, gracefulShutdownTimeout = 2000000000,
              log = None, baseURL = ''http://localhost:3099'',
              endpoints = [''http://localhost:3099'']\<rparr>, [HTTPListener])
   \<and> \<not> LetsEncrypt (zeroOptions\<lparr>DefaultDevPort := 3099, GracefulShutdownTimeout := 2 * Second\<rparr>)
   \<and> length [HTTPListener] = 1
   \<and> cap (MakeChan 2) \<noteq> 1"
  using Start_example_dev by (simp add: zeroOptions_def)

text \<open>
  C2. For every server that \<open>Start\<close> returns, \<open>Wait\<close> receives exactly one value from
  the completion channel for each listener goroutine started (one without Let's Encrypt,
  two with it): given at least that many completions it returns the first non-nil error
  among the ones it received, or nil if they are all nil, and leaves the rest of the
  channel untouched; given fewer, it blocks.
\<close>

theorem Wait_receives_one_per_listener:
  assumes "Start env h sopt = Value (srv, started)"
  shows "length started = (if LetsEncrypt sopt then 2 else 1)
       \<and> (length started \<le> length ch \<longrightarrow>
            Wait srv ch = Some (firstNonNil (take (length started) ch), drop (length started) ch))
       \<and> (length ch < length started \<longrightarrow> Wait srv ch = None)"
proof (cases "LetsEncrypt sopt")
  case True
  with Start_ValueD [OF assms]
  have "httpServer srv \<noteq> None" "httpsServer srv \<noteq> None" "length started = 2"
    by simp_all
  with True Wait_two [of srv ch] show ?thesis by auto
next
  case False
  with Start_ValueD [OF assms]
  have "httpServer srv \<noteq> None" "httpsServer srv = None" "length started = 1"
    by simp_all
  with False Wait_one [of srv ch] show ?thesis by auto
qed

text \<open>The Let's Encrypt server: with three completions delivered, \<open>Wait\<close> takes two and
  returns the error of the second; with one completion only, it blocks.\<close>

theorem Wait_receives_one_per_listener_witness:
  "Wait \<lparr>httpServer = Some \<lparr>Addr = '':80'',
                Handler = ChallengeHandler \<lparr>Prompt = AcceptTOS, Cache = ''/tmp/cache'',
                   HostPolicy = [''myhost.example.com''], Email = ''you@example.com''\<rparr>,
                TLSConfig = None\<rparr>,
          httpsServer = Some \<lparr>Addr = '':https'', Handler = CallerHandler (),
                TLSConfig = Some \<lparr>Prompt = AcceptTOS, Cache = ''/tmp/cache'',
                   HostPolicy = [''myhost.example.com''], Email = ''you@example.com''\<rparr>\<rparr>,
          errc = MakeChan 2, gracefulShutdownTimeout = 10000000000,
          log = None, baseURL = ''https://myhost.example.com'',
          endpoints = [''https://myhost.example.com'']\<rparr>
        [None, Some (OtherError ''bind: address already in use''), Some (OtherError ''late'')]
     = Some (Some (OtherError ''bind: address already in use''), [Some (OtherError ''late'')])
   \<and> Wait \<lparr>httpServer = Some \<lparr>Addr = '':80'',
                Handler = ChallengeHandler \<lparr>Prompt = AcceptTOS, Cache = ''/tmp/cache'',
                   HostPolicy = [''myhost.example.com''], Email = ''you@example.com''\<rparr>,
                TLSConfig = None\<rparr>,
          httpsServer = Some \<lparr>Addr = '':https'', Handler = CallerHandler (),
                TLSConfig = Some \<lparr>Prompt = AcceptTOS, Cache = ''/tmp/cache'',
                   HostPolicy = [''myhost.example.com''], Email = ''you@example.com''\<rparr>\<rparr>,
          errc = MakeChan 2, gracefulShutdownTimeout = 10000000000,
          log = None, baseURL = ''https://myhost.example.com'',
          endpoints = [''https://myhost.example.com'']\<rparr>
        [None]
     = None"
proof -
  note w = Wait_receives_one_per_listener [OF Start_example_tls]
  show ?thesis
    using w [of "[None, Some (OtherError ''bind: address already in use''), Some (OtherError ''late'')]"]
      w [of "[None]"]
    by simp
qed

section \<open>The shutdown coordinator\<close>

text \<open>\<open>gracefulShutdown\<close> by the result of its graceful phase: the forceful step is the
  last thing done in every case; \<open>context.DeadlineExceeded\<close> passes the message to the
  log function and returns normally; any other error panics with that error.\<close>

lemma gracefulShutdown_cases:
  "(\<exists>t1. snd (gracefulShutdown lg gp graceful forceful t0) = forceful t1)
   \<and> (fst (graceful (WithTimeout gp) t0) = None \<longrightarrow>
        gracefulShutdown lg gp graceful forceful t0 =
          (Value (), forceful (snd (graceful (WithTimeout gp) t0))))
   \<and> (fst (graceful (WithTimeout gp) t0) = Some DeadlineExceeded \<longrightarrow>
        gracefulShutdown lg gp graceful forceful t0 =
          (Value (), forceful (lg ''graceful shutdown timed out, will close connections forcibly''
                                 (snd (graceful (WithTimeout gp) t0)))))
   \<and> (\<forall>e. fst (graceful (WithTimeout gp) t0) = Some e \<and> e \<noteq> DeadlineExceeded \<longrightarrow>
        gracefulShutdown lg gp graceful forceful t0 =
          (Panic (PanicError e), forceful (snd (graceful (WithTimeout gp) t0))))"
  by (cases "graceful (WithTimeout gp) t0")
     (auto simp add: gracefulShutdown_def Let_def split: option.splits)

text \<open>\<open>Shutdown\<close> on a server with a plain listener: whatever the graceful phase returns,
  the trace ends with the \<open>Close\<close> of every listener the server has.\<close>

lemma Server_Shutdown_closes:
  assumes "httpServer srv \<noteq> None"
  shows "\<exists>t1. snd (Server_Shutdown res srv t0) =
     t1 @ CloseCalled HTTPListener #
       (if httpsServer srv \<noteq> None then [CloseCalled HTTPSListener] else [])"
  using assms
  by (auto simp add: Server_Shutdown_def gracefulShutdown_def Let_def split: option.splits)

text \<open>
  \<open>Shutdown\<close> on a server that \<open>Start\<close> has returned. \<open>Start\<close> never assigns the
  \<open>log\<close> field, whatever \<open>Options.Log\<close> is, so \<open>Log\<close> on the server does nothing. The
  result of the graceful phase is the plain listener's error, or the TLS listener's when
  the plain listener returned nil.
\<close>

lemma Server_Shutdown_started:
  assumes "Start env h sopt = Value (srv, started)"
  shows "Server_Log srv msg t = t
    \<and> Server_Shutdown res srv tr =
      (case (if LetsEncrypt sopt \<and> res HTTPListener (WithTimeout (gracefulShutdownTimeout srv)) = None
             then res HTTPSListener (WithTimeout (gracefulShutdownTimeout srv))
             else res HTTPListener (WithTimeout (gracefulShutdownTimeout srv))) of
         None \<Rightarrow> Value ()
       | Some e \<Rightarrow> if e = DeadlineExceeded then Value () else Panic (PanicError e),
       tr @ ShutdownCalled HTTPListener # (if LetsEncrypt sopt then [ShutdownCalled HTTPSListener] else [])
          @ CloseCalled HTTPListener # (if LetsEncrypt sopt then [CloseCalled HTTPSListener] else []))"
proof -
  from Start_ValueD [OF assms]
  have hs: "httpServer srv \<noteq> None" and tls: "(httpsServer srv \<noteq> None) = LetsEncrypt sopt"
    and lg: "log srv = None"
    by simp_all
  have l: "Server_Log srv = (\<lambda>msg t. t)"
    using lg by (simp add: Server_Log_def fun_eq_iff)
  show ?thesis
  proof (cases "LetsEncrypt sopt")
    case True
    with tls have "httpsServer srv \<noteq> None" by simp
    with hs True l show ?thesis
      by (auto simp add: Server_Shutdown_def gracefulShutdown_def Let_def split: option.splits)
  next
    case False
    with tls have "httpsServer srv = None" by simp
    with hs False l show ?thesis
      by (auto simp add: Server_Shutdown_def gracefulShutdown_def Let_def split: option.splits)
  qed
qed

text \<open>
  C3. The claim: in the shutdown coordinator the forceful step runs on every invocation,
  a graceful-phase result of deadline-exceeded is only logged and not propagated, and any
  other non-nil graceful-phase error causes a panic. What the code does:
  \<^item> \<open>gracefulShutdown\<close> itself behaves as claimed: the forceful step is applied last in
    every case, deadline-exceeded passes the message to the log function it was given and
    returns normally, any other error panics with that error;
  \<^item> \<open>Shutdown\<close> on a server that \<open>Start\<close> has returned closes every listener last and
    panics on a graceful-phase result other than deadline-exceeded, that result being the
    plain listener's error, or the TLS listener's when the plain listener returned nil;
    but on deadline-exceeded it returns with nothing logged, whatever \<open>Options.Log\<close> was:
    the log function it hands to the coordinator is \<open>Log\<close> on the server, which does
    nothing because \<open>Start\<close> leaves the \<open>log\<close> field nil, against the documentation of
    \<open>Log\<close> on \<open>Server\<close> (it "logs to the opt.Log function provided when starting the
    server"). The effects of the call are the \<open>Shutdown\<close> and \<open>Close\<close> of the
    listeners and nothing else.
\<close>

theorem Shutdown_timeout_not_logged:
  "((\<exists>t1. snd (gracefulShutdown lg gp graceful forceful t0) = forceful t1)
    \<and> (fst (graceful (WithTimeout gp) t0) = None \<longrightarrow>
         gracefulShutdown lg gp graceful forceful t0 =
           (Value (), forceful (snd (graceful (WithTimeout gp) t0))))
    \<and> (fst (graceful (WithTimeout gp) t0) = Some DeadlineExceeded \<longrightarrow>
         gracefulShutdown lg gp graceful forceful t0 =
           (Value (), forceful (lg ''graceful shutdown timed out, will close connections forcibly''
                                  (snd (graceful (WithTimeout gp) t0)))))
    \<and> (\<forall>e. fst (graceful (WithTimeout gp) t0) = Some e \<and> e \<noteq> DeadlineExceeded \<longrightarrow>
         gracefulShutdown lg gp graceful forceful t0 =
           (Panic (PanicError e), forceful (snd (graceful (WithTimeout gp) t0)))))
   \<and> (Start env h sopt = Value (srv, started) \<longrightarrow>
        Server_Log srv msg t = t
        \<and> Server_Shutdown res srv tr =
          (case (if LetsEncrypt sopt
                    \<and> res HTTPListener (WithTimeout (gracefulShutdownTimeout srv)) = None
                 then res HTTPSListener (WithTimeout (gracefulShutdownTimeout srv))
                 else res HTTPListener (WithTimeout (gracefulShutdownTimeout srv))) of
             None \<Rightarrow> Value ()
           | Some e \<Rightarrow> if e = DeadlineExceeded then Value () else Panic (PanicError e),
           tr @ ShutdownCalled HTTPListener
                 # (if LetsEncrypt sopt then [ShutdownCalled HTTPSListener] else [])
              @ CloseCalled HTTPListener
                 # (if LetsEncrypt sopt then [CloseCalled HTTPSListener] else [])))"
  using gracefulShutdown_cases [of lg gp graceful forceful t0]
    Server_Shutdown_started [of env h sopt srv started msg t res tr]
  by blast

text \<open>
  A development server started with a logger that appends to the trace, and shut down
  while a request outlives the grace period: \<open>Shutdown\<close> returns normally and the trace
  holds no log line. The same coordinator, given that logger directly, does log. A
  graceful phase that fails with another error: \<open>Shutdown\<close> panics after closing the
  listener. On the Let's Encrypt server, the plain listener times out and the TLS
  listener fails with another error: the result of the graceful phase is the timeout, and
  \<open>Shutdown\<close> returns normally after closing both.
\<close>

theorem Shutdown_timeout_not_logged_witness:
  "Start exampleEnv () (zeroOptions\<lparr>Log := Some traceLog, DefaultDevPort := 3099\<rparr>) =
     Value (\<lparr>httpServer = Some \<lparr>Addr = '':3099'', Handler = CallerHandler (), TLSConfig = None\<rparr>,
              httpsServer = None, errc = MakeChan 2, gracefulShutdownTimeout = 10000000000,
              log = None, baseURL = ''http://localhost:3099'',
              endpoints = [''http://localhost:3099'']\<rparr>, [HTTPListener])
   \<and> Server_Shutdown (\<lambda>l c. Some DeadlineExceeded)
       \<lparr>httpServer = Some \<lparr>Addr = '':3099'', Handler = CallerHandler (), TLSConfig = None\<rparr>,
        httpsServer = None, errc = MakeChan 2, gracefulShutdownTimeout = 10000000000,
        log = None, baseURL = ''http://localhost:3099'',
        endpoints = [''http://localhost:3099'']\<rparr> []
     = (Value (), [ShutdownCalled HTTPListener, CloseCalled HTTPListener])
   \<and> gracefulShutdown traceLog 10000000000
       (\<lambda>c t. (Some DeadlineExceeded, t @ [ShutdownCalled HTTPListener]))
       (\<lambda>t. t @ [CloseCalled HTTPListener]) []
     = (Value (), [ShutdownCalled HTTPListener,
                   Logged ''graceful shutdown timed out, will close connections forcibly'',
                   CloseCalled HTTPListener])
   \<and> Server_Shutdown (\<lambda>l c. Some (OtherError ''connection reset''))
       \<lparr>httpServer = Some \<lparr>Addr = '':3099'', Handler = CallerHandler (), TLSConfig = None\<rparr>,
        httpsServer = None, errc = MakeChan 2, gracefulShutdownTimeout = 10000000000,
        log = None, baseURL = ''http://localhost:3099'',
        endpoints = [''http://localhost:3099'']\<rparr> []
     = (Panic (PanicError (OtherError ''connection reset'')),
        [ShutdownCalled HTTPListener, CloseCalled HTTPListener])
   \<and> Server_Shutdown
       (\<lambda>l c. if l = HTTPListener then Some DeadlineExceeded else Some (OtherError ''tls: reset''))
       \<lparr>httpServer = Some \<lparr>Addr = '':80'',
                Handler = ChallengeHandler \<lparr>Prompt = AcceptTOS, Cache = ''/tmp/cache'',
                   HostPolicy = [''myhost.example.com''], Email = ''you@example.com''\<rparr>,
                TLSConfig = None\<rparr>,
        httpsServer = Some \<lparr>Addr = '':https'', Handler = CallerHandler (),
                TLSConfig = Some \<lparr>Prompt = AcceptTOS, Cache = ''/tmp/cache'',
                   HostPolicy = [''myhost.example.com''], Email = ''you@example.com''\<rparr>\<rparr>,
        errc = MakeChan 2, gracefulShutdownTimeout = 10000000000,
        log = None, baseURL = ''https://myhost.example.com'',
        endpoints = [''https://myhost.example.com'']\<rparr> []
     = (Value (), [ShutdownCalled HTTPListener, ShutdownCalled HTTPSListener,
                   CloseCalled HTTPListener, CloseCalled HTTPSListener])"
proof -
  let ?o = "zeroOptions\<lparr>Log := Some traceLog, DefaultDevPort := 3099\<rparr>"
  let ?srv = "\<lparr>httpServer = Some \<lparr>Addr = '':3099'', Handler = CallerHandler (), TLSConfig = None\<rparr>,
        httpsServer = None, errc = MakeChan 2, gracefulShutdownTimeout = 10000000000,
        log = None, baseURL = ''http://localhost:3099'',
        endpoints = [''http://localhost:3099'']\<rparr>"
  let ?g = "\<lambda>(c::ctx) (t::trace). (Some DeadlineExceeded, t @ [ShutdownCalled HTTPListener])"
  let ?f = "\<lambda>t::trace. t @ [CloseCalled HTTPListener]"
  have tls: "\<not> LetsEncrypt ?o" by (simp add: zeroOptions_def)
  have a: "Server_Shutdown (\<lambda>l c. Some DeadlineExceeded) ?srv []
      = (Value (), [ShutdownCalled HTTPListener, CloseCalled HTTPListener])"
    using Shutdown_timeout_not_logged [where env = exampleEnv and h = "()" and sopt = ?o
        and srv = ?srv and started = "[HTTPListener]" and res = "\<lambda>l c. Some DeadlineExceeded"
        and tr = "[]" and lg = traceLog and gp = 10000000000 and graceful = ?g
        and forceful = ?f and ?t0.0 = "[]"]
      Start_example_logged tls
    by simp
  have b: "gracefulShutdown traceLog 10000000000 ?g ?f []
      = (Value (), [ShutdownCalled HTTPListener,
                    Logged ''graceful shutdown timed out, will close connections forcibly'',
                    CloseCalled HTTPListener])"
    using Shutdown_timeout_not_logged [where env = exampleEnv and h = "()" and sopt = ?o
        and srv = ?srv and started = "[HTTPListener]" and res = "\<lambda>l c. Some DeadlineExceeded"
        and tr = "[]" and lg = traceLog and gp = 10000000000 and graceful = ?g
        and forceful = ?f and ?t0.0 = "[]"]
    by (simp add: traceLog_def)
  have c: "Server_Shutdown (\<lambda>l c. Some (OtherError ''connection reset'')) ?srv []
      = (Panic (PanicError (OtherError ''connection reset'')),
         [ShutdownCalled HTTPListener, CloseCalled HTTPListener])"
    using Shutdown_timeout_not_logged [where env = exampleEnv and h = "()" and sopt = ?o
        and srv = ?srv and started = "[HTTPListener]"
        and res = "\<lambda>l c. Some (OtherError ''connection reset'')"
        and tr = "[]" and lg = traceLog and gp = 10000000000 and graceful = ?g
        and forceful = ?f and ?t0.0 = "[]"]
      Start_example_logged tls
    by simp
  let ?p = "zeroOptions\<lparr>Host := ''myhost.example.com'', LetsEncrypt := True,
            LetsEncryptEmail := ''you@example.com'', LetsEncryptCacheDir := ''/tmp/cache''\<rparr>"
  let ?tls = "\<lparr>httpServer = Some \<lparr>Addr = '':80'',
                Handler = ChallengeHandler \<lparr>Prompt = AcceptTOS, Cache = ''/tmp/cache'',
                   HostPolicy = [''myhost.example.com''], Email = ''you@example.com''\<rparr>,
                TLSConfig = None\<rparr>,
        httpsServer = Some \<lparr>Addr = '':https'', Handler = CallerHandler (),
                TLSConfig = Some \<lparr>Prompt = AcceptTOS, Cache = ''/tmp/cache'',
                   HostPolicy = [''myhost.example.com''], Email = ''you@example.com''\<rparr>\<rparr>,
        errc = MakeChan 2, gracefulShutdownTimeout = 10000000000,
        log = None, baseURL = ''https://myhost.example.com'',
        endpoints = [''https://myhost.example.com'']\<rparr>"
  have on: "LetsEncrypt ?p" by simp
  have d: "Server_Shutdown
       (\<lambda>l c. if l = HTTPListener then Some DeadlineExceeded else Some (OtherError ''tls: reset''))
       ?tls []
     = (Value (), [ShutdownCalled HTTPListener, ShutdownCalled HTTPSListener,
                   CloseCalled HTTPListener, CloseCalled HTTPSListener])"
    using Shutdown_timeout_not_logged [where env = exampleEnv and h = "()" and sopt = ?p
        and srv = ?tls and started = "[HTTPSListener, HTTPListener]"
        and res = "\<lambda>l c. if l = HTTPListener then Some DeadlineExceeded
                        else Some (OtherError ''tls: reset'')"
        and tr = "[]" and lg = traceLog and gp = 10000000000 and graceful = ?g
        and forceful = ?f and ?t0.0 = "[]"]
      Start_example_tls on
    by simp
  show ?thesis
    using Start_example_logged a b c d by blast
qed

section \<open>Validation\<close>

text \<open>
  C4 (amended). For every configuration with Let's Encrypt enabled whose port, as
  \<open>Verify\<close> leaves it, is not 80, validation fails, with the error of the first check
  that fails, in this order: the missing-port error when the host is a local-development
  host and both the port and the development-default port are zero; the
  not-supported-on-localhost error when the host is a local-development host; the
  missing-email error when the contact email is empty; the missing-cache-directory error
  when the cache directory is empty; and otherwise the port-mismatch error, carrying the
  port unmodified. The host is a local-development host when the flag was already set or
  the hostname is empty, \<open>localhost\<close> or starts with \<open>localhost:\<close>. \<open>Verify\<close> never
  changes a non-zero port.
\<close>

theorem Verify_tls_port_not_80:
  "(LetsEncrypt sopt \<and> Port (snd (Verify sopt)) \<noteq> 80 \<longrightarrow>
      fst (Verify sopt) =
        Some (if IsLocalDevelopmentHost (snd (Verify sopt)) \<and> Port sopt = 0
                   \<and> DefaultDevPort sopt = 0
                then MissingDevPort
              else if IsLocalDevelopmentHost (snd (Verify sopt)) then LocalhostNotSupported
              else if LetsEncryptEmail sopt = '''' then MissingEmail
              else if LetsEncryptCacheDir sopt = '''' then MissingCacheDir
              else PortNot80 (Port (snd (Verify sopt)))))
   \<and> IsLocalDevelopmentHost (snd (Verify sopt)) =
        (IsLocalDevelopmentHost sopt \<or> Host sopt = '''' \<or> Host sopt = ''localhost''
          \<or> prefix ''localhost:'' (Host sopt))
   \<and> (Port sopt \<noteq> 0 \<longrightarrow> Port (snd (Verify sopt)) = Port sopt)"
  by (auto simp add: Verify_def Let_def)

text \<open>A complete Let's Encrypt configuration on port 8080: the port-mismatch error, and
  the port is still 8080. The same on port 8443 without a cache directory: the
  missing-cache-directory error.\<close>

theorem Verify_tls_port_not_80_witness:
  "LetsEncrypt (zeroOptions\<lparr>Port := 8080, Host := ''example.com'', LetsEncrypt := True,
       LetsEncryptCacheDir := ''/tmp/cache'', LetsEncryptEmail := ''you@example.com''\<rparr>)
   \<and> Port (zeroOptions\<lparr>Port := 8080, Host := ''example.com'', LetsEncrypt := True,
       LetsEncryptCacheDir := ''/tmp/cache'', LetsEncryptEmail := ''you@example.com''\<rparr>) = 8080
   \<and> fst (Verify (zeroOptions\<lparr>Port := 8080, Host := ''example.com'', LetsEncrypt := True,
       LetsEncryptCacheDir := ''/tmp/cache'', LetsEncryptEmail := ''you@example.com''\<rparr>))
       = Some (PortNot80 8080)
   \<and> Port (snd (Verify (zeroOptions\<lparr>Port := 8080, Host := ''example.com'', LetsEncrypt := True,
       LetsEncryptCacheDir := ''/tmp/cache'', LetsEncryptEmail := ''you@example.com''\<rparr>))) = 8080
   \<and> fst (Verify (zeroOptions\<lparr>Port := 8443, Host := ''example.com'', LetsEncrypt := True,
       LetsEncryptEmail := ''you@example.com''\<rparr>))
       = Some MissingCacheDir"
proof -
  let ?o = "zeroOptions\<lparr>Port := 8080, Host := ''example.com'', LetsEncrypt := True,
       LetsEncryptCacheDir := ''/tmp/cache'', LetsEncryptEmail := ''you@example.com''\<rparr>"
  let ?m = "zeroOptions\<lparr>Port := 8443, Host := ''example.com'', LetsEncrypt := True,
       LetsEncryptEmail := ''you@example.com''\<rparr>"
  note t = Verify_tls_port_not_80 [of ?o]
  note u = Verify_tls_port_not_80 [of ?m]
  have h: "LetsEncrypt ?o" "Port ?o = 8080" "LetsEncryptEmail ?o \<noteq> ''''"
    "LetsEncryptCacheDir ?o \<noteq> ''''"
    by simp_all
  have p: "Port (snd (Verify ?o)) = 8080"
    using t h(2) by simp
  have l: "\<not> IsLocalDevelopmentHost (snd (Verify ?o))"
    using t by (simp add: zeroOptions_def)
  have e: "fst (Verify ?o) = Some (PortNot80 8080)"
    using t h p l by simp
  have k: "LetsEncrypt ?m" "Port ?m = 8443" "LetsEncryptEmail ?m \<noteq> ''''"
    "LetsEncryptCacheDir ?m = ''''"
    by (simp_all add: zeroOptions_def)
  have q: "Port (snd (Verify ?m)) = 8443"
    using u k(2) by simp
  have n: "\<not> IsLocalDevelopmentHost (snd (Verify ?m))"
    using u by (simp add: zeroOptions_def)
  have f: "fst (Verify ?m) = Some MissingCacheDir"
    using u k q n by simp
  show ?thesis
    using h(1,2) e p f by blast
qed

text \<open>Let's Encrypt on port 8080 with no contact email: the resolved port is not 80, and
  the error is the missing email, not the port mismatch.\<close>

theorem Verify_tls_port_counterexample:
  "LetsEncrypt (zeroOptions\<lparr>Port := 8080, Host := ''example.com'', LetsEncrypt := True\<rparr>)
   \<and> Port (snd (Verify (zeroOptions\<lparr>Port := 8080, Host := ''example.com'', LetsEncrypt := True\<rparr>)))
       = 8080
   \<and> fst (Verify (zeroOptions\<lparr>Port := 8080, Host := ''example.com'', LetsEncrypt := True\<rparr>))
       = Some MissingEmail
   \<and> fst (Verify (zeroOptions\<lparr>Port := 8080, Host := ''example.com'', LetsEncrypt := True\<rparr>))
       \<noteq> Some (PortNot80 8080)"
  by (simp add: Verify_def Let_def zeroOptions_def)

text \<open>
  C5 (amended). For every configuration with Let's Encrypt enabled and a hostname that is
  empty, \<open>localhost\<close> or of the form \<open>localhost:...\<close>, validation fails: with the
  not-supported-on-localhost error, unless both the port and the development-default
  port are zero, in which case the missing-port error is reported first.
\<close>

theorem Verify_tls_on_localhost:
  assumes "LetsEncrypt sopt"
    and "Host sopt = '''' \<or> Host sopt = ''localhost'' \<or> prefix ''localhost:'' (Host sopt)"
  shows "fst (Verify sopt) =
    Some (if Port sopt = 0 \<and> DefaultDevPort sopt = 0 then MissingDevPort
          else LocalhostNotSupported)"
  using assms by (auto simp add: Verify_def Let_def)

text \<open>Let's Encrypt asked for on \<open>localhost:3000\<close>, with everything else in order.\<close>

theorem Verify_tls_on_localhost_witness:
  "LetsEncrypt (zeroOptions\<lparr>Port := 80, Host := ''localhost:3000'', LetsEncrypt := True,
       LetsEncryptCacheDir := ''/tmp/cache'', LetsEncryptEmail := ''you@example.com''\<rparr>)
   \<and> prefix ''localhost:'' (Host (zeroOptions\<lparr>Port := 80, Host := ''localhost:3000'',
       LetsEncrypt := True, LetsEncryptCacheDir := ''/tmp/cache'',
       LetsEncryptEmail := ''you@example.com''\<rparr>))
   \<and> fst (Verify (zeroOptions\<lparr>Port := 80, Host := ''localhost:3000'', LetsEncrypt := True,
       LetsEncryptCacheDir := ''/tmp/cache'', LetsEncryptEmail := ''you@example.com''\<rparr>))
       = Some LocalhostNotSupported"
proof -
  let ?o = "zeroOptions\<lparr>Port := 80, Host := ''localhost:3000'', LetsEncrypt := True,
       LetsEncryptCacheDir := ''/tmp/cache'', LetsEncryptEmail := ''you@example.com''\<rparr>"
  have h1: "LetsEncrypt ?o" by simp
  have h2: "prefix ''localhost:'' (Host ?o)" by simp
  have h3: "Host ?o = '''' \<or> Host ?o = ''localhost'' \<or> prefix ''localhost:'' (Host ?o)"
    using h2 by blast
  have e: "fst (Verify ?o) = Some LocalhostNotSupported"
    using Verify_tls_on_localhost [OF h1 h3] by simp
  show ?thesis using h1 h2 e by blast
qed

text \<open>Let's Encrypt asked for on \<open>localhost\<close> with no port and no development-default
  port: validation fails with the missing-port error.\<close>

theorem Verify_tls_on_localhost_counterexample:
  "LetsEncrypt (zeroOptions\<lparr>Host := ''localhost'', LetsEncrypt := True\<rparr>)
   \<and> Host (zeroOptions\<lparr>Host := ''localhost'', LetsEncrypt := True\<rparr>) = ''localhost''
   \<and> fst (Verify (zeroOptions\<lparr>Host := ''localhost'', LetsEncrypt := True\<rparr>)) = Some MissingDevPort
   \<and> fst (Verify (zeroOptions\<lparr>Host := ''localhost'', LetsEncrypt := True\<rparr>))
       \<noteq> Some LocalhostNotSupported"
  by (simp add: Verify_def Let_def zeroOptions_def)

text \<open>
  C6. For every configuration with an empty hostname, port zero, Let's Encrypt disabled
  and a non-zero development-default port, validation succeeds, sets the
  local-development flag, sets the primary scheme to \<open>http\<close>, sets the port to the
  development default and the hostname to \<open>localhost:\<close> followed by that port, and
  leaves every other field as it was; with development-default port 3001, \<open>BaseURL\<close>
  then returns \<open>http://localhost:3001\<close>.
\<close>

theorem Verify_development_defaults:
  assumes "Host sopt = ''''" "Port sopt = 0" "\<not> LetsEncrypt sopt" "DefaultDevPort sopt \<noteq> 0"
  shows "Verify sopt =
          (None, sopt\<lparr>IsLocalDevelopmentHost := True, Port := DefaultDevPort sopt,
                      PrimaryScheme := ''http'',
                      Host := ''localhost:'' @ Itoa (DefaultDevPort sopt)\<rparr>)
        \<and> (DefaultDevPort sopt = 3001 \<longrightarrow>
             Options_BaseURL (snd (Verify sopt)) = Value ''http://localhost:3001'')"
  using assms by (simp add: Verify_def Let_def Options_BaseURL_def Itoa_3001)

text \<open>The scenario of the specification: only the development-default port is set, to
  3001.\<close>

theorem Verify_development_defaults_witness:
  "Host (zeroOptions\<lparr>DefaultDevPort := 3001\<rparr>) = ''''
   \<and> Port (zeroOptions\<lparr>DefaultDevPort := 3001\<rparr>) = 0
   \<and> \<not> LetsEncrypt (zeroOptions\<lparr>DefaultDevPort := 3001\<rparr>)
   \<and> fst (Verify (zeroOptions\<lparr>DefaultDevPort := 3001\<rparr>)) = None
   \<and> Options_BaseURL (snd (Verify (zeroOptions\<lparr>DefaultDevPort := 3001\<rparr>)))
       = Value ''http://localhost:3001''"
proof -
  let ?o = "zeroOptions\<lparr>DefaultDevPort := 3001\<rparr>"
  have h: "Host ?o = ''''" "Port ?o = 0" "\<not> LetsEncrypt ?o" "DefaultDevPort ?o \<noteq> 0"
    by (simp_all add: zeroOptions_def)
  have d: "DefaultDevPort ?o = 3001" by simp
  note t = Verify_development_defaults [OF h]
  have v: "fst (Verify ?o) = None" using t by simp
  have b: "Options_BaseURL (snd (Verify ?o)) = Value ''http://localhost:3001''"
    using t d by blast
  show ?thesis using h v b by blast
qed

text \<open>
  C8. For every configuration whose primary scheme is still unset, which is the case
  when \<open>Verify\<close> has not run, \<open>BaseURL\<close> on the options panics and returns nothing.
\<close>

theorem BaseURL_before_Verify_panics:
  assumes "PrimaryScheme sopt = ''''"
  shows "Options_BaseURL sopt = Panic (PanicString ''BaseURL before Verify'')"
  using assms by (simp add: Options_BaseURL_def)

text \<open>Options with a host and a port, never validated.\<close>

theorem BaseURL_before_Verify_panics_witness:
  "PrimaryScheme (zeroOptions\<lparr>Port := 8080, Host := ''example.com''\<rparr>) = ''''
   \<and> Options_BaseURL (zeroOptions\<lparr>Port := 8080, Host := ''example.com''\<rparr>)
       = Panic (PanicString ''BaseURL before Verify'')"
proof -
  have h: "PrimaryScheme (zeroOptions\<lparr>Port := 8080, Host := ''example.com''\<rparr>) = ''''"
    by (simp add: zeroOptions_def)
  show ?thesis
    using h BaseURL_before_Verify_panics [OF h] by blast
qed

text \<open>
  C9 (amended). \<open>Verify\<close> replaces the hostname by \<open>localhost:\<close> followed by the
  resolved port when, on success, the hostname is empty or is exactly \<open>localhost\<close>; for
  every configuration whose hostname on entry is neither empty nor \<open>localhost\<close>,
  \<open>Verify\<close> leaves the hostname unchanged.
\<close>

theorem Verify_hostname_frame:
  "(Host sopt \<noteq> '''' \<and> Host sopt \<noteq> ''localhost'' \<longrightarrow> Host (snd (Verify sopt)) = Host sopt)
   \<and> (fst (Verify sopt) = None \<and> (Host sopt = '''' \<or> Host sopt = ''localhost'') \<longrightarrow>
        Host (snd (Verify sopt)) = ''localhost:'' @ Itoa (Port (snd (Verify sopt))))"
  by (auto simp add: Verify_def Let_def)

text \<open>A public hostname is kept; an empty one becomes \<open>localhost:3001\<close>.\<close>

theorem Verify_hostname_frame_witness:
  "Host (snd (Verify (zeroOptions\<lparr>Host := ''example.com''\<rparr>))) = ''example.com''
   \<and> fst (Verify (zeroOptions\<lparr>DefaultDevPort := 3001\<rparr>)) = None
   \<and> Host (snd (Verify (zeroOptions\<lparr>DefaultDevPort := 3001\<rparr>))) = ''localhost:3001''"
proof -
  let ?a = "zeroOptions\<lparr>Host := ''example.com''\<rparr>"
  let ?b = "zeroOptions\<lparr>DefaultDevPort := 3001\<rparr>"
  have a: "Host (snd (Verify ?a)) = ''example.com''"
    using Verify_hostname_frame [of ?a] by simp
  have ok: "fst (Verify ?b) = None"
    by (simp add: Verify_def Let_def zeroOptions_def)
  have port: "Port (snd (Verify ?b)) = 3001"
    by (simp add: Verify_def Let_def zeroOptions_def)
  have empty: "Host ?b = ''''"
    by (simp add: zeroOptions_def)
  have b: "Host (snd (Verify ?b)) = ''localhost:3001''"
    using Verify_hostname_frame [of ?b] ok empty port by (simp add: Itoa_3001)
  show ?thesis using a ok b by blast
qed

text \<open>The hostname \<open>localhost\<close> with port 3001: non-empty on entry, validation
  succeeds, and the hostname has become \<open>localhost:3001\<close>.\<close>

theorem Verify_hostname_counterexample:
  "Host (zeroOptions\<lparr>Port := 3001, Host := ''localhost''\<rparr>) = ''localhost''
   \<and> fst (Verify (zeroOptions\<lparr>Port := 3001, Host := ''localhost''\<rparr>)) = None
   \<and> Host (snd (Verify (zeroOptions\<lparr>Port := 3001, Host := ''localhost''\<rparr>))) = ''localhost:3001''
   \<and> Host (snd (Verify (zeroOptions\<lparr>Port := 3001, Host := ''localhost''\<rparr>)))
       \<noteq> Host (zeroOptions\<lparr>Port := 3001, Host := ''localhost''\<rparr>)"
  by (simp add: Verify_def Let_def zeroOptions_def Itoa_3001)

section \<open>Start: endpoints and the shutdown deadline\<close>

text \<open>
  C7 (amended). For every server started with a configuration that is not a
  local-development one, with Let's Encrypt disabled and port 8080, the endpoint list
  has exactly two entries: the preferred base address, followed by the loopback
  supplement \<open>127.0.0.1:8080\<close>.
\<close>

theorem Endpoints_plain_8080:
  assumes "Start env h sopt = Value (srv, started)"
    and "\<not> IsLocalDevelopmentHost sopt" and "Host sopt \<noteq> ''''" and "Host sopt \<noteq> ''localhost''"
    and "\<not> prefix ''localhost:'' (Host sopt)"
    and "\<not> LetsEncrypt sopt" and "Port sopt = 8080"
  shows "Endpoints srv = [Server_BaseURL srv, ''127.0.0.1:8080''] \<and> length (Endpoints srv) = 2"
proof -
  have l: "\<not> IsLocalDevelopmentHost (if PrimaryScheme sopt = '''' then snd (Verify sopt) else sopt)"
    using assms(2-5) Verify_nonlocal [of sopt] by simp
  have p: "Port (if PrimaryScheme sopt = '''' then snd (Verify sopt) else sopt) = 8080"
    using assms(7) Verify_keeps_nonzero_port [of sopt] by simp
  show ?thesis
    using Start_endpoints [OF assms(1)] l p
    by (simp add: Endpoints_def Server_BaseURL_def Itoa_8080)
qed

text \<open>The plain server for \<open>example.com\<close> on port 8080.\<close>

theorem Endpoints_plain_8080_witness:
  "Start exampleEnv () (zeroOptions\<lparr>Host := ''example.com'', Port := 8080\<rparr>) =
     Value (\<lparr>httpServer = Some \<lparr>Addr = '':8080'', Handler = CallerHandler (), TLSConfig = None\<rparr>,
              httpsServer = None, errc = MakeChan 2, gracefulShutdownTimeout = 10000000000,
              log = None, baseURL = ''https://example.com'',
              endpoints = [''https://example.com'', ''127.0.0.1:8080'']\<rparr>, [HTTPListener])
   \<and> Endpoints \<lparr>httpServer = Some \<lparr>Addr = '':8080'', Handler = CallerHandler (), TLSConfig = None\<rparr>,
              httpsServer = None, errc = MakeChan 2, gracefulShutdownTimeout = 10000000000,
              log = None, baseURL = ''https://example.com'',
              endpoints = [''https://example.com'', ''127.0.0.1:8080'']\<rparr>
       = [''https://example.com'', ''127.0.0.1:8080'']"
proof -
  let ?o = "zeroOptions\<lparr>Host := ''example.com'', Port := 8080\<rparr>"
  have h: "\<not> IsLocalDevelopmentHost ?o" "Host ?o \<noteq> ''''" "Host ?o \<noteq> ''localhost''"
    "\<not> prefix ''localhost:'' (Host ?o)" "\<not> LetsEncrypt ?o" "Port ?o = 8080"
    by (simp_all add: zeroOptions_def)
  show ?thesis
    using Endpoints_plain_8080 [OF Start_example_8080 h] Start_example_8080
    by (simp add: Server_BaseURL_def)
qed

text \<open>A plain server for \<open>app.example.org\<close> on port 8080, Let's Encrypt disabled, not a
  local-development host: the list has two entries, not one.\<close>

theorem Endpoints_plain_8080_counterexample:
  "Start exampleEnv () (zeroOptions\<lparr>Host := ''app.example.org'', Port := 8080\<rparr>) =
     Value (\<lparr>httpServer = Some \<lparr>Addr = '':8080'', Handler = CallerHandler (), TLSConfig = None\<rparr>,
              httpsServer = None, errc = MakeChan 2, gracefulShutdownTimeout = 10000000000,
              log = None, baseURL = ''https://app.example.org'',
              endpoints = [''https://app.example.org'', ''127.0.0.1:8080'']\<rparr>, [HTTPListener])
   \<and> \<not> IsLocalDevelopmentHost (snd (Verify (zeroOptions\<lparr>Host := ''app.example.org'', Port := 8080\<rparr>)))
   \<and> length [''https://app.example.org'', ''127.0.0.1:8080''] \<noteq> 1"
  by (simp add: Start_def startHTTPS_def Verify_def Options_BaseURL_def Let_def zeroOptions_def
      exampleEnv_def Itoa_8080 Second_def)

text \<open>
  C10. For every server that \<open>Start\<close> returns, the graceful-shutdown deadline is ten
  seconds when the options passed to \<open>Start\<close> had a zero timeout, and the caller's
  timeout, unchanged, when it was not zero.
\<close>

theorem Start_default_shutdown_timeout:
  assumes "Start env h sopt = Value (srv, started)"
  shows "(GracefulShutdownTimeout sopt = 0 \<longrightarrow> gracefulShutdownTimeout srv = 10 * Second)
       \<and> (GracefulShutdownTimeout sopt \<noteq> 0 \<longrightarrow>
            gracefulShutdownTimeout srv = GracefulShutdownTimeout sopt)"
  using Start_ValueD [OF assms] by simp

text \<open>The server on port 8080 is started with no timeout and has ten seconds; the
  development server is started with two seconds and keeps them.\<close>

theorem Start_default_shutdown_timeout_witness:
  "Start exampleEnv () (zeroOptions\<lparr>Host := ''example.com'', Port := 8080\<rparr>) =
     Value (\<lparr>httpServer = Some \<lparr>Addr = '':8080'', Handler = CallerHandler (), TLSConfig = None\<rparr>,
              httpsServer = None, errc = MakeChan 2, gracefulShutdownTimeout = 10000000000,
              log = None, baseURL = ''https://example.com'',
              endpoints = [''https://example.com'', ''127.0.0.1:8080'']\<rparr>, [HTTPListener])
   \<and> GracefulShutdownTimeout (zeroOptions\<lparr>Host := ''example.com'', Port := 8080\<rparr>) = 0
   \<and> gracefulShutdownTimeout
        \<lparr>httpServer = Some \<lparr>Addr = '':8080'', Handler = CallerHandler (), TLSConfig = None\<rparr>,
         httpsServer = None, errc = MakeChan 2, gracefulShutdownTimeout = 10000000000,
         log = None, baseURL = ''https://example.com'',
         endpoints = [''https://example.com'', ''127.0.0.1:8080'']\<rparr> = 10 * Second
   \<and> Start exampleEnv ()
        (zeroOptions\<lparr>DefaultDevPort := 3099, GracefulShutdownTimeout := 2 * Second\<rparr>) =
     Value (\<lparr>httpServer = Some \<lparr>Addr = '':3099'', Handler = CallerHandler (), TLSConfig = None\<rparr>,
              httpsServer = None, errc = MakeChan 2, gracefulShutdownTimeout = 2000000000,
              log = None, baseURL = ''http://localhost:3099'',
              endpoints = [''http://localhost:3099'']\<rparr>, [HTTPListener])
   \<and> GracefulShutdownTimeout
        (zeroOptions\<lparr>DefaultDevPort := 3099, GracefulShutdownTimeout := 2 * Second\<rparr>) = 2 * Second
   \<and> gracefulShutdownTimeout
        \<lparr>httpServer = Some \<lparr>Addr = '':3099'', Handler = CallerHandler (), TLSConfig = None\<rparr>,
         httpsServer = None, errc = MakeChan 2, gracefulShutdownTimeout = 2000000000,
         log = None, baseURL = ''http://localhost:3099'',
         endpoints = [''http://localhost:3099'']\<rparr> = 2 * Second"
proof -
  let ?a = "zeroOptions\<lparr>Host := ''example.com'', Port := 8080\<rparr>"
  let ?b = "zeroOptions\<lparr>DefaultDevPort := 3099, GracefulShutdownTimeout := 2 * Second\<rparr>"
  have za: "GracefulShutdownTimeout ?a = 0"
    by (simp add: zeroOptions_def)
  have zb: "GracefulShutdownTimeout ?b = 2 * Second" "GracefulShutdownTimeout ?b \<noteq> 0"
    by (simp_all add: Second_def)
  note ta = Start_default_shutdown_timeout [OF Start_example_8080]
  note tb = Start_default_shutdown_timeout [OF Start_example_dev]
  have a: "gracefulShutdownTimeout
        \<lparr>httpServer = Some \<lparr>Addr = '':8080'', Handler = CallerHandler (), TLSConfig = None\<rparr>,
         httpsServer = None, errc = MakeChan 2, gracefulShutdownTimeout = 10000000000,
         log = None, baseURL = ''https://example.com'',
         endpoints = [''https://example.com'', ''127.0.0.1:8080'']\<rparr> = 10 * Second"
    using ta za by blast
  have b: "gracefulShutdownTimeout
        \<lparr>httpServer = Some \<lparr>Addr = '':3099'', Handler = CallerHandler (), TLSConfig = None\<rparr>,
         httpsServer = None, errc = MakeChan 2, gracefulShutdownTimeout = 2000000000,
         log = None, baseURL = ''http://localhost:3099'',
         endpoints = [''http://localhost:3099'']\<rparr> = 2 * Second"
    using tb zb by metis
  show ?thesis
    using Start_example_8080 Start_example_dev za zb(1) a b by blast
qed

section \<open>Clean shutdown\<close>

text \<open>A listener that returns \<open>http.ErrServerClosed\<close> reports nil; when every listener of
  a started server does so, \<open>Wait\<close> returns nil and leaves nothing on the channel.\<close>

lemma Wait_after_clean_shutdown:
  assumes "Start env h sopt = Value (srv, started)"
  shows "Wait srv (map (\<lambda>l. listenerReport ErrServerClosed) started) = Some (None, [])"
proof (cases "LetsEncrypt sopt")
  case True
  with Start_ValueD [OF assms]
  have "httpServer srv \<noteq> None" "httpsServer srv \<noteq> None"
    "started = [HTTPSListener, HTTPListener]"
    by simp_all
  then show ?thesis by (simp add: Wait_two listenerReport_def)
next
  case False
  with Start_ValueD [OF assms]
  have "httpServer srv \<noteq> None" "httpsServer srv = None" "started = [HTTPListener]"
    by simp_all
  then show ?thesis by (simp add: Wait_one listenerReport_def)
qed

end
